theory Spec2Isabelle
  imports Complex_Main
begin

section \<open>JavaScript numbers\<close>

text \<open>
  A JavaScript number is modelled as a real number, one of the two infinities, or NaN.
  Rounding, overflow and the sign of zero are not modelled: arithmetic on finite numbers is
  exact, a zero divisor is the positive zero, and what the model keeps of IEEE arithmetic
  is where a result stops being a number: \<open>0 / 0\<close>, \<open>Math.asin\<close> and \<open>Math.acos\<close> outside
  \<open>[-1, 1]\<close>, and every operation on NaN.
\<close>

datatype jsnum = Fin real | PInf | NInf | NaN

fun js_neg :: "jsnum \<Rightarrow> jsnum" where
  "js_neg (Fin x) = Fin (- x)"
| "js_neg PInf = NInf"
| "js_neg NInf = PInf"
| "js_neg NaN = NaN"

fun js_add :: "jsnum \<Rightarrow> jsnum \<Rightarrow> jsnum" where
  "js_add (Fin x) (Fin y) = Fin (x + y)"
| "js_add NaN y = NaN"
| "js_add x NaN = NaN"
| "js_add PInf NInf = NaN"
| "js_add NInf PInf = NaN"
| "js_add PInf y = PInf"
| "js_add NInf y = NInf"
| "js_add (Fin x) y = y"

definition js_sub :: "jsnum \<Rightarrow> jsnum \<Rightarrow> jsnum" where
  "js_sub x y = js_add x (js_neg y)"

text \<open>Division of two finite numbers, the only division the arm solver performs.\<close>

definition js_div :: "real \<Rightarrow> real \<Rightarrow> jsnum" where
  "js_div x y =
     (if y = 0 then (if x = 0 then NaN else if 0 < x then PInf else NInf)
      else Fin (x / y))"

fun js_asin :: "jsnum \<Rightarrow> jsnum" where
  "js_asin (Fin x) = (if - 1 \<le> x \<and> x \<le> 1 then Fin (arcsin x) else NaN)"
| "js_asin x = NaN"

fun js_acos :: "jsnum \<Rightarrow> jsnum" where
  "js_acos (Fin x) = (if - 1 \<le> x \<and> x \<le> 1 then Fin (arccos x) else NaN)"
| "js_acos x = NaN"


section \<open>MoabModel.ts: constants\<close>

definition DefaultBallRadius :: real where "DefaultBallRadius = 0.020"
definition DefaultPlateZ :: real where "DefaultPlateZ = 0.042"
definition PlateOriginToSurfaceOffset :: real where "PlateOriginToSurfaceOffset = 0.009"


section \<open>MoabVisualizer.tsx: the state of an inbound message\<close>

text \<open>
  The \<open>state\<close> object of a parsed message has type \<open>{ [key: string]: any }\<close>. A property
  read is a total function from the key to a value, \<open>undefined\<close> for a key the object does
  not have. The values are those the input contract names (numbers and booleans) and the
  two JSON can add to them, \<open>null\<close> and the absent \<open>undefined\<close>.
\<close>

datatype jsval = JUndefined | JNull | JBool bool | JNum jsnum

text \<open>The operator \<open>??\<close>: the right operand where the left is \<open>undefined\<close> or \<open>null\<close>.\<close>

definition nullish :: "jsval \<Rightarrow> jsval \<Rightarrow> jsval" where
  "nullish v d = (if v = JUndefined \<or> v = JNull then d else v)"

fun toNumber :: "jsval \<Rightarrow> jsnum" where
  "toNumber JUndefined = NaN"
| "toNumber JNull = Fin 0"
| "toNumber (JBool b) = (if b then Fin 1 else Fin 0)"
| "toNumber (JNum n) = n"

text \<open>The operator \<open>+\<close> on the values above (none is a string): numeric addition.\<close>

definition js_plus :: "jsval \<Rightarrow> jsval \<Rightarrow> jsval" where
  "js_plus u v = JNum (js_add (toNumber u) (toNumber v))"

text \<open>The double negation \<open>!!v\<close>.\<close>

fun truthy :: "jsval \<Rightarrow> bool" where
  "truthy JUndefined = False"
| "truthy JNull = False"
| "truthy (JBool b) = b"
| "truthy (JNum (Fin x)) = (x \<noteq> 0)"
| "truthy (JNum NaN) = False"
| "truthy (JNum n) = True"

text \<open>
  \<open>_receiveMessage\<close>, from the point where the message has been parsed and accepted: the
  object literal \<open>newState.model.state\<close>, as the list of its properties in the order
  written. A local variable assigned twice (\<open>let roll = state['roll']; if (roll ===
  undefined) roll = state['tilt_x']\<close>) is one binding with the conditional as its value.
\<close>

definition receiveMessage_state :: "(string \<Rightarrow> jsval) \<Rightarrow> (string \<times> jsval) list" where
  "receiveMessage_state state =
     (let ballRadius = nullish (state ''ball_radius'') (JNum (Fin DefaultBallRadius));
          roll = (if state ''roll'' = JUndefined then state ''tilt_x'' else state ''roll'');
          pitch = (if state ''pitch'' = JUndefined then state ''tilt_y'' else state ''pitch'');
          obstaclePosX = (if state ''obstacle_x'' = JUndefined then state ''obstacle_pos_x''
                          else state ''obstacle_x'');
          obstaclePosY = (if state ''obstacle_y'' = JUndefined then state ''obstacle_pos_y''
                          else state ''obstacle_y'');
          platePosX = (if state ''plate_x'' = JUndefined then state ''plate_pos_x''
                       else state ''plate_x'');
          platePosY = (if state ''plate_y'' = JUndefined then state ''plate_pos_y''
                       else state ''plate_y'');
          platePosZ = (if state ''plate_z'' = JUndefined then state ''plate_pos_z''
                       else state ''plate_z'');
          targetPosX = (if state ''target_x'' = JUndefined then state ''target_pos_x''
                        else state ''target_x'');
          targetPosY = (if state ''target_y'' = JUndefined then state ''target_pos_y''
                        else state ''target_y'')
      in [(''timeDelta'', nullish (state ''time_delta'') (JNum (Fin 0.02))),
          (''ballRadius'', ballRadius),
          (''ballPosX'', nullish (state ''ball_x'') (JNum (Fin 0.0))),
          (''ballPosY'', nullish (state ''ball_y'') (JNum (Fin 0.0))),
          (''ballPosZ'', nullish (state ''ball_z'')
             (js_plus (JNum (Fin (PlateOriginToSurfaceOffset + DefaultPlateZ))) ballRadius)),
          (''ballVelX'', nullish (state ''ball_vel_x'') (JNum (Fin 0.0))),
          (''ballVelY'', nullish (state ''ball_vel_y'') (JNum (Fin 0.0))),
          (''ballVelZ'', nullish (state ''ball_vel_z'') (JNum (Fin 0.0))),
          (''ballOrientX'', nullish (state ''ball_qat_x'') (JNum (Fin 0.0))),
          (''ballOrientY'', nullish (state ''ball_qat_y'') (JNum (Fin 0.0))),
          (''ballOrientZ'', nullish (state ''ball_qat_z'') (JNum (Fin 0.0))),
          (''ballOrientW'', nullish (state ''ball_qat_w'') (JNum (Fin 1.0))),
          (''estimatedPosX'', state ''estimated_x''),
          (''estimatedPosY'', state ''estimated_y''),
          (''estimatedRadius'', state ''estimated_radius''),
          (''estimatedVelX'', state ''estimated_vel_x''),
          (''estimatedVelY'', state ''estimated_vel_y''),
          (''targetPosX'', nullish targetPosX (JNum (Fin 0.0))),
          (''targetPosY'', nullish targetPosY (JNum (Fin 0.0))),
          (''obstaclePosX'', nullish obstaclePosX (JNum (Fin 0.03))),
          (''obstaclePosY'', nullish obstaclePosY (JNum (Fin 0.03))),
          (''obstacleRadius'', nullish (state ''obstacle_radius'') (JNum (Fin 0.0))),
          (''platePosX'', nullish platePosX (JNum (Fin 0.0))),
          (''platePosY'', nullish platePosY (JNum (Fin 0.0))),
          (''platePosZ'', nullish platePosZ (JNum (Fin DefaultPlateZ))),
          (''plateNorX'', nullish (state ''plate_nor_x'') (JNum (Fin 0.0))),
          (''plateNorY'', nullish (state ''plate_nor_y'') (JNum (Fin 0.0))),
          (''plateNorZ'', nullish (state ''plate_nor_z'') (JNum (Fin 1.0))),
          (''roll'', nullish roll (JNum (Fin 0.0))),
          (''pitch'', nullish pitch (JNum (Fin 0.0))),
          (''terminal'', JBool (truthy (state ''terminal''))),
          (''reward'', state ''reward'')])"

text \<open>Reading a property of the new model state.\<close>

definition field :: "(string \<times> jsval) list \<Rightarrow> string \<Rightarrow> jsval" where
  "field obj k = (case map_of obj k of None \<Rightarrow> JUndefined | Some v \<Rightarrow> v)"


section \<open>MoabRenderer.tsx: the arm kinematics\<close>

record arm_angles =
  theta_link :: jsnum
  theta_servo :: jsnum

text \<open>The two local constants \<open>a\<close> and \<open>b\<close> of \<open>_anglesForArmJoints\<close>.\<close>

definition arm_a :: real where "arm_a = 0.055"
definition arm_b :: real where "arm_b = 0.055"

text \<open>
  \<open>_anglesForArmJoints(v, h)\<close> for finite \<open>v\<close> and \<open>h\<close>. The locals \<open>theta_link\<close> and
  \<open>theta_servo\<close> of the source are \<open>link\<close> and \<open>servo\<close> here; the properties of the
  returned object keep their names.
\<close>

definition anglesForArmJoints :: "real \<Rightarrow> real \<Rightarrow> arm_angles" where
  "anglesForArmJoints v h =
     (let a = arm_a;
          b = arm_b;
          c = sqrt (v ^ 2 + h ^ 2);
          theta_hc = js_asin (js_div v c);
          link = js_acos (js_div (a ^ 2 + b ^ 2 - c ^ 2) (2 * a * b));
          theta_ac = js_acos (js_div (a ^ 2 + c ^ 2 - b ^ 2) (2 * a * c));
          servo = (if h \<ge> 0 then js_sub theta_hc theta_ac
                   else js_sub (Fin pi) (js_add theta_hc theta_ac))
      in \<lparr> theta_link = js_add (Fin pi) link,
           theta_servo = js_sub (Fin (pi * 2)) servo \<rparr>)"


section \<open>three.js: vectors and quaternions\<close>

text \<open>
  The renderer computes with the vectors and quaternions of the three.js library, whose
  sources are not among the repository's files. Each operation the renderer calls is
  modelled here over the real numbers, named as the library names it.
\<close>

datatype Vector3 = Vector3 (vx: real) (vy: real) (vz: real)

datatype Quaternion = Quaternion (qx: real) (qy: real) (qz: real) (qw: real)

text \<open>The two module constants of MoabRenderer.tsx, and the library's y axis.\<close>

definition xAxis :: Vector3 where "xAxis = Vector3 1 0 0"
definition zAxis :: Vector3 where "zAxis = Vector3 0 0 1"
definition yAxis :: Vector3 where "yAxis = Vector3 0 1 0"

text \<open>
  Modelled from the spec: \<open>Vector3.add\<close> is three.js code, missing from the sources. The spec
  calls it a vector add with no scaling.
\<close>

definition vec_add :: "Vector3 \<Rightarrow> Vector3 \<Rightarrow> Vector3" where
  "vec_add u v = Vector3 (vx u + vx v) (vy u + vy v) (vz u + vz v)"

text \<open>
  Modelled from the spec: \<open>Vector3.length\<close> is three.js code, missing from the sources. The
  spec calls it the Euclidean length.
\<close>

definition vec_length :: "Vector3 \<Rightarrow> real" where
  "vec_length v = sqrt (vx v * vx v + vy v * vy v + vz v * vz v)"

text \<open>
  Modelled from the spec: \<open>Vector3.normalize\<close> is three.js code, missing from the sources.
  The spec calls it the normalization of the vector and leaves the zero vector to the
  implementation; the library divides by \<open>length() || 1\<close>, that is by 1 where the length is
  0, and divides by multiplying with the reciprocal.
\<close>

definition vec_normalize :: "Vector3 \<Rightarrow> Vector3" where
  "vec_normalize v =
     (let l = vec_length v;
          s = 1 / (if l = 0 then 1 else l)
      in Vector3 (vx v * s) (vy v * s) (vz v * s))"

text \<open>
  Modelled from the spec: \<open>Vector3.applyQuaternion\<close> is three.js code, missing from the
  sources. The spec calls it rotating a vector by a quaternion; the library computes the
  product of the quaternion, the vector and the conjugate of the quaternion.
\<close>

definition applyQuaternion :: "Vector3 \<Rightarrow> Quaternion \<Rightarrow> Vector3" where
  "applyQuaternion v q =
     (let ix = qw q * vx v + qy q * vz v - qz q * vy v;
          iy = qw q * vy v + qz q * vx v - qx q * vz v;
          iz = qw q * vz v + qx q * vy v - qy q * vx v;
          iw = - qx q * vx v - qy q * vy v - qz q * vz v
      in Vector3 (ix * qw q + iw * - qx q + iy * - qz q - iz * - qy q)
                 (iy * qw q + iw * - qy q + iz * - qx q - ix * - qz q)
                 (iz * qw q + iw * - qz q + ix * - qy q - iy * - qx q))"

text \<open>
  Modelled from the spec: \<open>Quaternion.normalize\<close> is three.js code, missing from the sources,
  which \<open>setFromUnitVectors\<close> ends with. The library scales the quaternion to length 1 and
  turns the zero quaternion into the identity.
\<close>

definition quat_length :: "Quaternion \<Rightarrow> real" where
  "quat_length q = sqrt (qx q * qx q + qy q * qy q + qz q * qz q + qw q * qw q)"

definition quat_normalize :: "Quaternion \<Rightarrow> Quaternion" where
  "quat_normalize q =
     (let l = quat_length q
      in if l = 0 then Quaternion 0 0 0 1
         else Quaternion (qx q * (1 / l)) (qy q * (1 / l)) (qz q * (1 / l)) (qw q * (1 / l)))"

text \<open>
  Modelled from the spec: \<open>Quaternion.setFromUnitVectors\<close> is three.js code, missing from the
  sources. The spec calls it the shortest-arc rotation that takes one direction onto
  another, with a deterministic fallback axis where the two are opposite. The library, as
  the name of the function says, takes both arguments to be of unit length and does not
  normalize them: with \<open>r\<close> the dot product plus 1, the result is the normalized quaternion
  of the cross product and \<open>r\<close>, and where \<open>r\<close> is below a small positive threshold, a half
  turn about an axis perpendicular to \<open>vFrom\<close>. The threshold is a constant of the library
  and a parameter here.
\<close>

definition setFromUnitVectors :: "real \<Rightarrow> Vector3 \<Rightarrow> Vector3 \<Rightarrow> Quaternion" where
  "setFromUnitVectors eps vFrom vTo =
     (let r = (vx vFrom * vx vTo + vy vFrom * vy vTo + vz vFrom * vz vTo) + 1
      in if r < eps then
           (if \<bar>vx vFrom\<bar> > \<bar>vz vFrom\<bar>
            then quat_normalize (Quaternion (- vy vFrom) (vx vFrom) 0 0)
            else quat_normalize (Quaternion 0 (- vz vFrom) (vy vFrom) 0))
         else quat_normalize
                (Quaternion (vy vFrom * vz vTo - vz vFrom * vy vTo)
                            (vz vFrom * vx vTo - vx vFrom * vz vTo)
                            (vx vFrom * vy vTo - vy vFrom * vx vTo)
                            r))"

text \<open>
  Modelled from the spec: \<open>Quaternion.invert\<close> is three.js code, missing from the sources.
  The spec calls it the inverse of the supplied unit quaternion; the library takes the
  quaternion to be of unit length and returns its conjugate.
\<close>

definition invert :: "Quaternion \<Rightarrow> Quaternion" where
  "invert q = Quaternion (- qx q) (- qy q) (- qz q) (qw q)"

text \<open>
  Modelled from the spec: \<open>Quaternion.multiply\<close> is three.js code, missing from the sources.
  The spec calls it composing two quaternions: the Hamilton product.
\<close>

definition multiply :: "Quaternion \<Rightarrow> Quaternion \<Rightarrow> Quaternion" where
  "multiply a b =
     Quaternion (qx a * qw b + qw a * qx b + qy a * qz b - qz a * qy b)
                (qy a * qw b + qw a * qy b + qz a * qx b - qx a * qz b)
                (qz a * qw b + qw a * qz b + qx a * qy b - qy a * qx b)
                (qw a * qw b - qx a * qx b - qy a * qy b - qz a * qz b)"

text \<open>
  Modelled from the spec: \<open>Quaternion.setFromAxisAngle\<close> is three.js code, missing from the
  sources. The spec calls it an elemental rotation by an angle about an axis.
\<close>

definition setFromAxisAngle :: "Vector3 \<Rightarrow> real \<Rightarrow> Quaternion" where
  "setFromAxisAngle axis angle =
     (let halfAngle = angle / 2;
          s = sin halfAngle
      in Quaternion (vx axis * s) (vy axis * s) (vz axis * s) (cos halfAngle))"


section \<open>MoabModel.ts: the model state\<close>

text \<open>
  The interface \<open>ModelState\<close>. The five fields of the estimated ball are declared numbers
  and are \<open>undefined\<close> where the message has no estimate, which the renderer tests for;
  \<open>None\<close> is \<open>undefined\<close>.
\<close>

record ModelState =
  timeDelta :: real
  ballRadius :: real
  ballPosX :: real
  ballPosY :: real
  ballPosZ :: real
  ballVelX :: real
  ballVelY :: real
  ballVelZ :: real
  ballOrientX :: real
  ballOrientY :: real
  ballOrientZ :: real
  ballOrientW :: real
  estimatedPosX :: "real option"
  estimatedPosY :: "real option"
  estimatedRadius :: "real option"
  estimatedVelX :: "real option"
  estimatedVelY :: "real option"
  targetPosX :: real
  targetPosY :: real
  obstaclePosX :: real
  obstaclePosY :: real
  obstacleRadius :: real
  platePosX :: real
  platePosY :: real
  platePosZ :: real
  plateNorX :: real
  plateNorY :: real
  plateNorZ :: real
  pitch :: real
  roll :: real
  terminal :: bool
  reward :: real

text \<open>The model state the constructor of \<open>MoabVisualizer\<close> starts with.\<close>

definition initialModelState :: ModelState where
  "initialModelState =
     \<lparr> timeDelta = 0.02,
       ballRadius = DefaultBallRadius,
       ballPosX = 0,
       ballPosY = 0,
       ballPosZ = DefaultPlateZ + PlateOriginToSurfaceOffset + DefaultBallRadius,
       ballVelX = 0,
       ballVelY = 0,
       ballVelZ = 0,
       ballOrientX = 0,
       ballOrientY = 0,
       ballOrientZ = 0,
       ballOrientW = 1,
       estimatedPosX = Some 0,
       estimatedPosY = Some 0,
       estimatedRadius = Some DefaultBallRadius,
       estimatedVelX = Some 0,
       estimatedVelY = Some 0,
       targetPosX = 0,
       targetPosY = 0,
       obstaclePosX = 0.03,
       obstaclePosY = 0.03,
       obstacleRadius = 0,
       platePosX = 0,
       platePosY = 0,
       platePosZ = DefaultPlateZ,
       plateNorX = 0,
       plateNorY = 0,
       plateNorZ = 1,
       pitch = 0,
       roll = 0,
       terminal = False,
       reward = 0 \<rparr>"


section \<open>MoabRenderer.tsx: the render pass\<close>

text \<open>
  The renderer keeps its scene objects and updates them in place on every pass; the
  model passes the renderer through \<open>render3DScene\<close> and returns it updated. An object is
  what the pass writes of it: position, orientation, scale and visibility. The arrow of the
  estimated velocity keeps the direction and the length it was last given. An arm keeps
  its mounting (orientation and position, from the loaded asset) and the two angles its
  joints were last turned to about the x axis.
\<close>

record Object3D =
  position :: Vector3
  quaternion :: Quaternion
  scale :: Vector3
  visible :: bool

record ArrowHelper =
  arrow_position :: Vector3
  arrow_direction :: Vector3
  arrow_length :: real
  arrow_visible :: bool

record Arm =
  arm_quaternion :: Quaternion
  arm_position :: Vector3
  plateArm_angle :: jsnum
  servoArm_angle :: jsnum

record MoabRenderer =
  plateOrig :: Vector3
  plateSurfaceOrig :: Vector3
  ball :: Object3D
  target :: Object3D
  obstacle :: Object3D
  plate :: Object3D
  joystick :: Object3D
  estimatedPos :: Object3D
  estimatedVel :: ArrowHelper
  armLeft :: Arm
  armCenter :: Arm
  armRight :: Arm

text \<open>
  The operator \<open>||\<close> with an optional number on its left: the right operand where the left
  is \<open>undefined\<close> or 0.
\<close>

definition js_or :: "real option \<Rightarrow> real \<Rightarrow> real" where
  "js_or a b = (case a of None \<Rightarrow> b | Some x \<Rightarrow> if x = 0 then b else x)"

text \<open>
  \<open>_orientArm\<close>, for an arm group that has both of its joints: the angles go to the two
  joints by \<open>setRotationFromAxisAngle(xAxis, _)\<close>.
\<close>

definition orientArm :: "Arm \<Rightarrow> Vector3 \<Rightarrow> Quaternion \<Rightarrow> Arm" where
  "orientArm armGroup platePos plateQ =
     (let armQ = arm_quaternion armGroup;
          jointPosC = vec_add
            (applyQuaternion (applyQuaternion (Vector3 0 (vy platePos + 0.1) 0) armQ) plateQ)
            platePos;
          v = vz jointPosC - vz (arm_position armGroup);
          h = vy jointPosC - vy (arm_position armGroup);
          angles = anglesForArmJoints v h
      in armGroup \<lparr> plateArm_angle := theta_link angles,
                    servoArm_angle := theta_servo angles \<rparr>)"

text \<open>
  Three locals of \<open>_render3DScene\<close> that statements below are about, each as a function of
  what it is computed from: the orientation of the plate, the orientation of the ball and
  the position of the estimated-ball ring.
\<close>

definition plateQ :: "real \<Rightarrow> ModelState \<Rightarrow> Quaternion" where
  "plateQ eps moabState =
     (let plateNor = Vector3 (plateNorX moabState) (plateNorY moabState) (plateNorZ moabState)
      in setFromUnitVectors eps zAxis plateNor)"

definition ballRot :: "ModelState \<Rightarrow> Quaternion" where
  "ballRot moabState =
     invert (Quaternion (ballOrientX moabState) (ballOrientY moabState)
                        (ballOrientZ moabState) (ballOrientW moabState))"

definition ballRingPos :: "MoabRenderer \<Rightarrow> ModelState \<Rightarrow> Vector3" where
  "ballRingPos this moabState =
     vec_add (Vector3 (js_or (estimatedPosX moabState) (ballPosX moabState))
                      (js_or (estimatedPosY moabState) (ballPosY moabState))
                      (platePosZ moabState))
             (plateOrig this)"

text \<open>
  \<open>_render3DScene\<close> of a mounted renderer whose asset has loaded (the scene, the camera and
  every object the pass guards with \<open>if (this._target)\<close> and the like are there). The
  background colour and the final draw call are not part of the model. The first argument
  is the threshold of \<open>setFromUnitVectors\<close>. Setting the Euler rotation
  \<open>(3\<pi>/2, 0, 0)\<close> of the target is a rotation by that angle about the x axis.
\<close>

definition render3DScene :: "real \<Rightarrow> ModelState \<Rightarrow> MoabRenderer \<Rightarrow> MoabRenderer" where
  "render3DScene eps moabState this =
     (let platePos = vec_add
            (Vector3 (platePosX moabState) (platePosY moabState) (platePosZ moabState))
            (plateOrig this);
          ballPos = vec_add
            (Vector3 (ballPosX moabState) (ballPosY moabState) (ballPosZ moabState))
            (plateSurfaceOrig this);
          targetPos = Vector3 (targetPosX moabState) (targetPosY moabState)
                        PlateOriginToSurfaceOffset;
          obstaclePos = Vector3 (obstaclePosX moabState) (obstaclePosY moabState) 0.0;
          xAngle = (pitch moabState * pi) / 12;
          yAngle = (roll moabState * pi) / 12;
          joystick1 = (joystick this)
            \<lparr> quaternion :=
                multiply (multiply (setFromAxisAngle (Vector3 0 0 1) 0)
                                   (setFromAxisAngle xAxis xAngle))
                         (setFromAxisAngle yAxis yAngle) \<rparr>;
          ball1 = (ball this)
            \<lparr> scale := Vector3 (ballRadius moabState) (ballRadius moabState) (ballRadius moabState),
              position := ballPos,
              quaternion := ballRot moabState \<rparr>;
          target1 = (target this)
            \<lparr> position := targetPos,
              quaternion := setFromAxisAngle xAxis ((3.0 * pi) / 2.0),
              visible := (vx targetPos \<noteq> 0 \<or> vy targetPos \<noteq> 0) \<rparr>;
          obstacle1 = (obstacle this)
            \<lparr> scale := Vector3 (obstacleRadius moabState) (obstacleRadius moabState)
                        (obstacleRadius moabState),
              position := obstaclePos,
              visible := (obstacleRadius moabState > 0.0) \<rparr>;
          estimatedPos1 =
            (case (estimatedPosX moabState, estimatedPosY moabState, estimatedRadius moabState) of
               (Some ex, Some ey, Some r) \<Rightarrow>
                 (estimatedPos this)
                   \<lparr> scale := Vector3 r r r,
                     position := ballRingPos this moabState,
                     quaternion := plateQ eps moabState,
                     visible := True \<rparr>
             | _ \<Rightarrow> (estimatedPos this) \<lparr> visible := False \<rparr>);
          estimatedVel1 =
            (case (estimatedVelX moabState, estimatedVelY moabState) of
               (Some evx, Some evy) \<Rightarrow>
                 (let estimatedVel0 = Vector3 evx evy 0;
                      len = vec_length estimatedVel0;
                      dir = vec_normalize estimatedVel0
                  in (estimatedVel this)
                       \<lparr> arrow_position := ballRingPos this moabState,
                         arrow_direction := dir,
                         arrow_length := len,
                         arrow_visible := True \<rparr>)
             | _ \<Rightarrow> (estimatedVel this) \<lparr> arrow_visible := False \<rparr>);
          plate1 = (plate this)
            \<lparr> position := platePos, quaternion := plateQ eps moabState \<rparr>
      in this \<lparr> ball := ball1,
                target := target1,
                obstacle := obstacle1,
                plate := plate1,
                joystick := joystick1,
                estimatedPos := estimatedPos1,
                estimatedVel := estimatedVel1,
                armLeft := orientArm (armLeft this) platePos (plateQ eps moabState),
                armCenter := orientArm (armCenter this) platePos (plateQ eps moabState),
                armRight := orientArm (armRight this) platePos (plateQ eps moabState) \<rparr>)"

text \<open>
  A renderer as it stands after mounting, for the concrete instances below: the objects
  the renderer creates itself are at the library's defaults (origin, identity, unit scale,
  visible; the arrow points along x with length 0.1), and the geometry taken from the
  loaded asset, which the sources do not hold, is set to sample values.
\<close>

definition sampleObject :: Object3D where
  "sampleObject =
     \<lparr> position = Vector3 0 0 0, quaternion = Quaternion 0 0 0 1,
       scale = Vector3 1 1 1, visible = True \<rparr>"

definition sampleArm :: Arm where
  "sampleArm =
     \<lparr> arm_quaternion = Quaternion 0 0 0 1, arm_position = Vector3 0 0.05 0.1,
       plateArm_angle = Fin 0, servoArm_angle = Fin 0 \<rparr>"

definition sampleRenderer :: MoabRenderer where
  "sampleRenderer =
     \<lparr> plateOrig = Vector3 0 0 0.15,
       plateSurfaceOrig = Vector3 0 0 0.15,
       ball = sampleObject,
       target = sampleObject,
       obstacle = sampleObject,
       plate = sampleObject,
       joystick = sampleObject,
       estimatedPos = sampleObject,
       estimatedVel =
         \<lparr> arrow_position = Vector3 0 0 0, arrow_direction = Vector3 1 0 0,
           arrow_length = 0.1, arrow_visible = True \<rparr>,
       armLeft = sampleArm,
       armCenter = sampleArm,
       armRight = sampleArm \<rparr>"


section \<open>Sample states\<close>

text \<open>
  Model states and a message for the concrete instances below, each the initial model
  state with a few fields changed: an estimate with its X but not its Y; an estimate whose
  X is 0; a ball turned about x; a unit plate normal tilted towards x; a plate normal of
  length 2; and the plate normal pointing straight down.
\<close>

definition halfEstimatedState :: ModelState where
  "halfEstimatedState =
     initialModelState \<lparr> ballPosX := 0.05, ballPosY := 0.06,
                          estimatedPosX := Some 0.01, estimatedPosY := None \<rparr>"

definition zeroEstimatedState :: ModelState where
  "zeroEstimatedState =
     initialModelState \<lparr> ballPosX := 0.05, ballPosY := 0.06,
                          estimatedPosX := Some 0, estimatedPosY := Some 0.01 \<rparr>"

definition spunBallState :: ModelState where
  "spunBallState = initialModelState \<lparr> ballOrientX := 3/5, ballOrientW := 4/5 \<rparr>"



definition flippedState :: ModelState where
  "flippedState = initialModelState \<lparr> plateNorX := 0, plateNorY := 0, plateNorZ := - 1 \<rparr>"

text \<open>
  A message state that has both \<open>roll\<close> and its legacy name \<open>tilt_x\<close>, and of \<open>pitch\<close> the
  legacy name \<open>tilt_y\<close> only.
\<close>

definition legacyMessage :: "string \<Rightarrow> jsval" where
  "legacyMessage =
     (\<lambda>k. JUndefined)
       (''roll'' := JNum (Fin 0.1), ''tilt_x'' := JNum (Fin 0.7), ''tilt_y'' := JNum (Fin (- 0.05)))"



section \<open>The arm solver inside its range\<close>

lemma div_hypot_range:
  fixes v h :: real
  assumes "0 < sqrt (v\<^sup>2 + h\<^sup>2)"
  shows "- 1 \<le> v / sqrt (v\<^sup>2 + h\<^sup>2) \<and> v / sqrt (v\<^sup>2 + h\<^sup>2) \<le> 1"
proof -
  have "\<bar>v\<bar> \<le> sqrt (v\<^sup>2 + h\<^sup>2)" by simp
  then have "\<bar>v / sqrt (v\<^sup>2 + h\<^sup>2)\<bar> \<le> 1"
    using assms by (simp add: field_simps)
  then show ?thesis unfolding abs_le_iff by linarith
qed

lemma link_arg_range:
  fixes c :: real
  assumes "0 \<le> c" "c \<le> arm_a + arm_b"
  shows "- 1 \<le> (arm_a\<^sup>2 + arm_b\<^sup>2 - c\<^sup>2) / (2 * arm_a * arm_b)
       \<and> (arm_a\<^sup>2 + arm_b\<^sup>2 - c\<^sup>2) / (2 * arm_a * arm_b) \<le> 1"
proof -
  have "c\<^sup>2 \<le> (11/100)\<^sup>2"
    using assms by (intro power_mono) (simp_all add: arm_a_def arm_b_def)
  moreover have "0 \<le> c\<^sup>2" by simp
  ultimately show ?thesis
    by (simp add: arm_a_def arm_b_def field_simps power2_eq_square)
qed

lemma ac_arg_range:
  fixes c :: real
  assumes "0 < c" "c \<le> arm_a + arm_b"
  shows "- 1 \<le> (arm_a\<^sup>2 + c\<^sup>2 - arm_b\<^sup>2) / (2 * arm_a * c)
       \<and> (arm_a\<^sup>2 + c\<^sup>2 - arm_b\<^sup>2) / (2 * arm_a * c) \<le> 1"
proof -
  have "(arm_a\<^sup>2 + c\<^sup>2 - arm_b\<^sup>2) / (2 * arm_a * c) = c / (2 * arm_a)"
    using assms by (simp add: arm_a_def arm_b_def power2_eq_square)
  moreover have "0 \<le> c / (2 * arm_a)" "c / (2 * arm_a) \<le> 1"
    using assms by (simp_all add: arm_a_def arm_b_def)
  ultimately show ?thesis by simp
qed

text \<open>
  C1. For every input \<open>(v, h)\<close> whose distance \<open>c = hypot(v, h)\<close> is strictly positive and
  inside the triangle-inequality range \<open>|a - b| \<le> c \<le> a + b\<close>, the solver returns the link
  angle \<open>\<pi> + \<theta>_link\<close> and the servo angle \<open>2\<pi> - servoAngle_raw\<close>, both numbers, where
  \<open>\<theta>_hc = asin(v/c)\<close>, \<open>\<theta>_link = acos((a\<^sup>2 + b\<^sup>2 - c\<^sup>2)/(2ab))\<close>,
  \<open>\<theta>_ac = acos((a\<^sup>2 + c\<^sup>2 - b\<^sup>2)/(2ac))\<close>, and \<open>servoAngle_raw\<close> is \<open>\<theta>_hc - \<theta>_ac\<close> for
  \<open>h \<ge> 0\<close> and \<open>\<pi> - (\<theta>_hc + \<theta>_ac)\<close> for \<open>h < 0\<close>.
\<close>

theorem anglesForArmJoints_reachable:
  fixes v h :: real
  assumes "0 < sqrt (v\<^sup>2 + h\<^sup>2)"
    and "\<bar>arm_a - arm_b\<bar> \<le> sqrt (v\<^sup>2 + h\<^sup>2)"
    and "sqrt (v\<^sup>2 + h\<^sup>2) \<le> arm_a + arm_b"
  shows "anglesForArmJoints v h =
    (let c = sqrt (v\<^sup>2 + h\<^sup>2);
         theta_hc = arcsin (v / c);
         link = arccos ((arm_a\<^sup>2 + arm_b\<^sup>2 - c\<^sup>2) / (2 * arm_a * arm_b));
         theta_ac = arccos ((arm_a\<^sup>2 + c\<^sup>2 - arm_b\<^sup>2) / (2 * arm_a * c));
         servoAngle_raw = (if h \<ge> 0 then theta_hc - theta_ac else pi - (theta_hc + theta_ac))
     in \<lparr> theta_link = Fin (pi + link), theta_servo = Fin (2 * pi - servoAngle_raw) \<rparr>)"
proof -
  define c where "c = sqrt (v\<^sup>2 + h\<^sup>2)"
  have c: "0 < c" "c \<le> arm_a + arm_b" using assms by (simp_all add: c_def)
  have a0: "arm_a \<noteq> 0" "arm_b \<noteq> 0" by (simp_all add: arm_a_def arm_b_def)
  have cne: "c \<noteq> 0" using c by simp
  have 1: "js_asin (js_div v c) = Fin (arcsin (v / c))"
    using div_hypot_range[OF assms(1)] cne unfolding c_def[symmetric] by (simp add: js_div_def)
  have 2: "js_acos (js_div (arm_a\<^sup>2 + arm_b\<^sup>2 - c\<^sup>2) (2 * arm_a * arm_b))
      = Fin (arccos ((arm_a\<^sup>2 + arm_b\<^sup>2 - c\<^sup>2) / (2 * arm_a * arm_b)))"
    using link_arg_range[of c] c a0 by (simp add: js_div_def)
  have 3: "js_acos (js_div (arm_a\<^sup>2 + c\<^sup>2 - arm_b\<^sup>2) (2 * arm_a * c))
      = Fin (arccos ((arm_a\<^sup>2 + c\<^sup>2 - arm_b\<^sup>2) / (2 * arm_a * c)))"
    using ac_arg_range[of c] c a0 by (simp add: js_div_def)
  show ?thesis
    unfolding anglesForArmJoints_def Let_def c_def[symmetric] 1 2 3
    by (simp add: js_sub_def mult.commute)
qed

text \<open>
  The instance \<open>v = a\<close>, \<open>h = 0\<close> (so \<open>c = a = b\<close>): the triangle is equilateral, both
  arccosines are those of \<open>1/2\<close>.
\<close>

theorem anglesForArmJoints_reachable_witness:
  "0 < sqrt ((0.055::real)\<^sup>2 + 0\<^sup>2)
   \<and> \<bar>arm_a - arm_b\<bar> \<le> sqrt ((0.055::real)\<^sup>2 + 0\<^sup>2)
   \<and> sqrt ((0.055::real)\<^sup>2 + 0\<^sup>2) \<le> arm_a + arm_b
   \<and> anglesForArmJoints 0.055 0 =
       \<lparr> theta_link = Fin (pi + arccos (1 / 2)),
         theta_servo = Fin (2 * pi - (pi / 2 - arccos (1 / 2))) \<rparr>"
proof -
  have s: "sqrt ((0.055::real)\<^sup>2 + 0\<^sup>2) = 0.055" by simp
  have h1: "0 < sqrt ((0.055::real)\<^sup>2 + 0\<^sup>2)" unfolding s by simp
  have h2: "\<bar>arm_a - arm_b\<bar> \<le> sqrt ((0.055::real)\<^sup>2 + 0\<^sup>2)"
    unfolding s by (simp add: arm_a_def arm_b_def)
  have h3: "sqrt ((0.055::real)\<^sup>2 + 0\<^sup>2) \<le> arm_a + arm_b"
    unfolding s by (simp add: arm_a_def arm_b_def)
  have l: "((arm_a)\<^sup>2 + (arm_b)\<^sup>2 - (0.055::real)\<^sup>2) / (2 * arm_a * arm_b) = 1 / 2"
    by (simp add: arm_a_def arm_b_def power2_eq_square)
  have a: "((arm_a)\<^sup>2 + (0.055::real)\<^sup>2 - (arm_b)\<^sup>2) / (2 * arm_a * 0.055) = 1 / 2"
    by (simp add: arm_a_def arm_b_def power2_eq_square)
  have "anglesForArmJoints 0.055 0 =
       \<lparr> theta_link = Fin (pi + arccos (1 / 2)),
         theta_servo = Fin (2 * pi - (pi / 2 - arccos (1 / 2))) \<rparr>"
    using anglesForArmJoints_reachable [OF h1 h2 h3] unfolding s Let_def l a by simp
  with h1 h2 h3 show ?thesis by blast
qed



section \<open>The arm solver at and beyond the edge of its range\<close>

text \<open>
  C10, as the code has it. For \<open>v = 0\<close> and \<open>h = 0\<close> the distance \<open>c\<close> is 0, the quotient
  \<open>v / c\<close> is \<open>0 / 0\<close>, and the returned servo angle is NaN: the solver has no guard for
  this input. The returned link angle is \<open>\<pi>\<close>: its quotient has the divisor \<open>2ab\<close>, which
  is not 0, and \<open>acos 1 = 0\<close>.
\<close>

theorem anglesForArmJoints_origin:
  "js_div 0 (sqrt (0\<^sup>2 + 0\<^sup>2)) = NaN
   \<and> anglesForArmJoints 0 0 = \<lparr> theta_link = Fin pi, theta_servo = NaN \<rparr>"
  by (simp add: anglesForArmJoints_def Let_def js_div_def js_sub_def arm_a_def arm_b_def
      power2_eq_square)

text \<open>C10 as stated has both returned angles NaN; the link angle is a number.\<close>

theorem anglesForArmJoints_origin_link_defined:
  "theta_link (anglesForArmJoints 0 0) \<noteq> NaN"
  by (simp add: anglesForArmJoints_def Let_def js_div_def js_sub_def arm_a_def arm_b_def
      power2_eq_square)

lemma beyond_link_nan:
  fixes c :: real
  assumes "arm_a + arm_b < c"
  shows "js_acos (js_div (arm_a\<^sup>2 + arm_b\<^sup>2 - c\<^sup>2) (2 * arm_a * arm_b)) = NaN"
proof -
  have "0 < c" using assms by (simp add: arm_a_def arm_b_def)
  then have "(11/100) * (11/100) < c * c"
    using assms by (intro mult_strict_mono) (simp_all add: arm_a_def arm_b_def)
  then have "(arm_a\<^sup>2 + arm_b\<^sup>2 - c\<^sup>2) / (2 * arm_a * arm_b) < - 1"
    by (simp add: arm_a_def arm_b_def field_simps power2_eq_square)
  then show ?thesis by (simp add: js_div_def arm_a_def arm_b_def)
qed

lemma beyond_ac_nan:
  fixes c :: real
  assumes "arm_a + arm_b < c"
  shows "js_acos (js_div (arm_a\<^sup>2 + c\<^sup>2 - arm_b\<^sup>2) (2 * arm_a * c)) = NaN"
proof -
  have c: "0 < c" using assms by (simp add: arm_a_def arm_b_def)
  have ne: "2 * arm_a * c \<noteq> 0" using c by (simp add: arm_a_def)
  have e: "(arm_a\<^sup>2 + c\<^sup>2 - arm_b\<^sup>2) / (2 * arm_a * c) = c / (2 * arm_a)"
    using c by (simp add: arm_a_def arm_b_def power2_eq_square)
  have big: "1 < c / (2 * arm_a)"
    using assms by (simp add: arm_a_def arm_b_def)
  have "js_div (arm_a\<^sup>2 + c\<^sup>2 - arm_b\<^sup>2) (2 * arm_a * c) = Fin (c / (2 * arm_a))"
    unfolding js_div_def using ne e by simp
  then show ?thesis using big by simp
qed

lemma js_add_NaN_right [simp]: "js_add x NaN = NaN"
  by (cases x) simp_all

lemma js_sub_NaN_right [simp]: "js_sub x NaN = NaN"
  by (simp add: js_sub_def)

lemma js_sub_NaN_left [simp]: "js_sub NaN x = NaN"
  by (simp add: js_sub_def)

lemma anglesForArmJoints_beyond:
  fixes v h :: real
  assumes "arm_a + arm_b < sqrt (v\<^sup>2 + h\<^sup>2)"
  shows "anglesForArmJoints v h = \<lparr> theta_link = NaN, theta_servo = NaN \<rparr>"
  unfolding anglesForArmJoints_def Let_def beyond_link_nan[OF assms] beyond_ac_nan[OF assms]
  by simp

lemma anglesForArmJoints_extended:
  fixes v h :: real
  assumes "sqrt (v\<^sup>2 + h\<^sup>2) = arm_a + arm_b"
  shows "anglesForArmJoints v h =
     \<lparr> theta_link = Fin (2 * pi),
       theta_servo = Fin (if h \<ge> 0 then 2 * pi - arcsin (v / (arm_a + arm_b))
                          else pi + arcsin (v / (arm_a + arm_b))) \<rparr>"
proof -
  have pos: "0 < sqrt (v\<^sup>2 + h\<^sup>2)" unfolding assms by (simp add: arm_a_def arm_b_def)
  have r: "- 1 \<le> v / (arm_a + arm_b) \<and> v / (arm_a + arm_b) \<le> 1"
    using div_hypot_range[OF pos] unfolding assms .
  have ne: "arm_a + arm_b \<noteq> 0" by (simp add: arm_a_def arm_b_def)
  have 1: "js_asin (js_div v (arm_a + arm_b)) = Fin (arcsin (v / (arm_a + arm_b)))"
    using r ne by (simp add: js_div_def)
  have 2: "js_acos (js_div (arm_a\<^sup>2 + arm_b\<^sup>2 - (arm_a + arm_b)\<^sup>2) (2 * arm_a * arm_b)) = Fin pi"
    by (simp add: js_div_def arm_a_def arm_b_def power2_eq_square)
  have 3: "js_acos (js_div (arm_a\<^sup>2 + (arm_a + arm_b)\<^sup>2 - arm_b\<^sup>2) (2 * arm_a * (arm_a + arm_b))) = Fin 0"
    by (simp add: js_div_def arm_a_def arm_b_def power2_eq_square)
  show ?thesis
    unfolding anglesForArmJoints_def Let_def assms 1 2 3
    by (simp add: js_sub_def)
qed

lemma anglesForArmJoints_folded:
  fixes v h :: real
  assumes "sqrt (v\<^sup>2 + h\<^sup>2) = \<bar>arm_a - arm_b\<bar>"
  shows "theta_servo (anglesForArmJoints v h) = NaN"
proof -
  have "sqrt (v\<^sup>2 + h\<^sup>2) = 0" using assms by (simp add: arm_a_def arm_b_def)
  then have "v = 0" "h = 0" by (simp_all add: sum_power2_eq_zero_iff)
  then show ?thesis
    by (simp add: anglesForArmJoints_def Let_def js_div_def js_sub_def arm_a_def arm_b_def
        power2_eq_square)
qed

text \<open>
  C6, as the code has it. The solver neither clamps nor rejects: for every input with
  \<open>c = hypot(v, h)\<close> above \<open>a + b\<close> both returned angles are NaN. At the boundary
  \<open>c = a + b\<close> both returned angles are numbers (the link angle \<open>2\<pi>\<close>). At the boundary
  \<open>c = |a - b|\<close>, which is \<open>c = 0\<close> as the two links are equally long, the returned servo
  angle is NaN.
\<close>

theorem anglesForArmJoints_no_clamp:
  fixes v h :: real
  shows "(arm_a + arm_b < sqrt (v\<^sup>2 + h\<^sup>2) \<longrightarrow>
            anglesForArmJoints v h = \<lparr> theta_link = NaN, theta_servo = NaN \<rparr>)
       \<and> (sqrt (v\<^sup>2 + h\<^sup>2) = arm_a + arm_b \<longrightarrow>
            anglesForArmJoints v h =
              \<lparr> theta_link = Fin (2 * pi),
                theta_servo = Fin (if h \<ge> 0 then 2 * pi - arcsin (v / (arm_a + arm_b))
                                   else pi + arcsin (v / (arm_a + arm_b))) \<rparr>)
       \<and> (sqrt (v\<^sup>2 + h\<^sup>2) = \<bar>arm_a - arm_b\<bar> \<longrightarrow>
            theta_servo (anglesForArmJoints v h) = NaN)"
  using anglesForArmJoints_beyond anglesForArmJoints_extended anglesForArmJoints_folded
  by blast

text \<open>
  The three cases at \<open>(v, h) = (1, 0)\<close>, beyond reach, at \<open>(0.11, 0)\<close>, fully extended, and
  at \<open>(0, 0)\<close>.
\<close>

theorem anglesForArmJoints_no_clamp_witness:
  "arm_a + arm_b < sqrt ((1::real)\<^sup>2 + 0\<^sup>2)
   \<and> anglesForArmJoints 1 0 = \<lparr> theta_link = NaN, theta_servo = NaN \<rparr>
   \<and> sqrt ((0.11::real)\<^sup>2 + 0\<^sup>2) = arm_a + arm_b
   \<and> anglesForArmJoints 0.11 0 =
        \<lparr> theta_link = Fin (2 * pi), theta_servo = Fin (2 * pi - pi / 2) \<rparr>
   \<and> sqrt ((0::real)\<^sup>2 + 0\<^sup>2) = \<bar>arm_a - arm_b\<bar>
   \<and> theta_servo (anglesForArmJoints 0 0) = NaN"
proof -
  have h1: "arm_a + arm_b < sqrt ((1::real)\<^sup>2 + 0\<^sup>2)"
    by (simp add: arm_a_def arm_b_def)
  have h2: "sqrt ((0.11::real)\<^sup>2 + 0\<^sup>2) = arm_a + arm_b"
    by (simp add: arm_a_def arm_b_def)
  have h3: "sqrt ((0::real)\<^sup>2 + 0\<^sup>2) = \<bar>arm_a - arm_b\<bar>"
    by (simp add: arm_a_def arm_b_def)
  have q: "(0.11::real) / (arm_a + arm_b) = 1" by (simp add: arm_a_def arm_b_def)
  note t1 = anglesForArmJoints_no_clamp [of 1 0, THEN conjunct1, rule_format, OF h1]
  note t2 = anglesForArmJoints_no_clamp
    [of "0.11" 0, THEN conjunct2, THEN conjunct1, rule_format, OF h2]
  note t3 = anglesForArmJoints_no_clamp
    [of 0 0, THEN conjunct2, THEN conjunct2, rule_format, OF h3]
  have t2': "anglesForArmJoints 0.11 0 =
        \<lparr> theta_link = Fin (2 * pi), theta_servo = Fin (2 * pi - pi / 2) \<rparr>"
    using t2 unfolding q by simp
  from h1 t1 h2 t2' h3 t3 show ?thesis by blast
qed

text \<open>
  C6 as stated has NaN never returned; it is returned one unit away from the shoulder,
  far beyond reach, and at the folded boundary.
\<close>

theorem anglesForArmJoints_nan_propagates:
  "anglesForArmJoints 1 0 = \<lparr> theta_link = NaN, theta_servo = NaN \<rparr>
   \<and> theta_servo (anglesForArmJoints 0 0) = NaN"
  by (simp add: anglesForArmJoints_def Let_def js_div_def js_sub_def arm_a_def arm_b_def
      power2_eq_square)


section \<open>The render pass: visibility\<close>

lemma render_target_visible:
  "visible (target (render3DScene eps st this)) = (targetPosX st \<noteq> 0 \<or> targetPosY st \<noteq> 0)"
  by (simp add: render3DScene_def Let_def)

lemma render_obstacle_visible:
  "visible (obstacle (render3DScene eps st this)) = (0 < obstacleRadius st)"
  by (simp add: render3DScene_def Let_def)

lemma render_estimatedPos_visible:
  "visible (estimatedPos (render3DScene eps st this)) =
     (estimatedPosX st \<noteq> None \<and> estimatedPosY st \<noteq> None \<and> estimatedRadius st \<noteq> None)"
  by (simp add: render3DScene_def Let_def split: option.splits)

text \<open>
  C7. After every render pass the target is hidden exactly when both of its
  coordinates are 0, the obstacle is hidden exactly when its radius is at most 0, and the
  estimated-ball ring is shown exactly when the estimated X, Y and radius are all present.
\<close>

theorem render3DScene_visibility:
  "(visible (target (render3DScene eps st this)) = False
      \<longleftrightarrow> targetPosX st = 0 \<and> targetPosY st = 0)
   \<and> (visible (obstacle (render3DScene eps st this)) = False
      \<longleftrightarrow> obstacleRadius st \<le> 0)
   \<and> (visible (estimatedPos (render3DScene eps st this)) = True
      \<longleftrightarrow> estimatedPosX st \<noteq> None \<and> estimatedPosY st \<noteq> None \<and> estimatedRadius st \<noteq> None)"
  unfolding render_target_visible render_obstacle_visible render_estimatedPos_visible
  by auto

text \<open>
  The initial model state: target at the origin, obstacle of radius 0, a full estimate.
\<close>

theorem render3DScene_visibility_witness:
  "visible (target (render3DScene (1 / 1000000) initialModelState sampleRenderer)) = False
   \<and> visible (obstacle (render3DScene (1 / 1000000) initialModelState sampleRenderer)) = False
   \<and> visible (estimatedPos (render3DScene (1 / 1000000) initialModelState sampleRenderer)) = True"
  using render3DScene_visibility [of "1 / 1000000" initialModelState sampleRenderer]
  by (simp add: initialModelState_def)


section \<open>The render pass: the estimated ball\<close>

text \<open>
  C4, as the code has it. Each of the X and the Y of the estimated-ball-ring position is
  settled on its own: it is the estimated coordinate where that is present and not 0, and
  the coordinate of the actual ball where the estimated one is absent, plus the plate
  origin. In every case the Z is the plate's current Z plus the plate origin's.
\<close>

theorem ballRingPos_components:
  "vz (ballRingPos this st) = platePosZ st + vz (plateOrig this)
   \<and> (\<forall>x. estimatedPosX st = Some x \<and> x \<noteq> 0 \<longrightarrow> vx (ballRingPos this st) = x + vx (plateOrig this))
   \<and> (estimatedPosX st = None \<longrightarrow> vx (ballRingPos this st) = ballPosX st + vx (plateOrig this))
   \<and> (\<forall>y. estimatedPosY st = Some y \<and> y \<noteq> 0 \<longrightarrow> vy (ballRingPos this st) = y + vy (plateOrig this))
   \<and> (estimatedPosY st = None \<longrightarrow> vy (ballRingPos this st) = ballPosY st + vy (plateOrig this))"
  by (simp add: ballRingPos_def vec_add_def js_or_def)

theorem ballRingPos_components_witness:
  "vz (ballRingPos sampleRenderer halfEstimatedState) = 0.042 + 0.15
   \<and> vx (ballRingPos sampleRenderer halfEstimatedState) = 0.01 + 0
   \<and> vy (ballRingPos sampleRenderer halfEstimatedState) = 0.06 + 0"
proof -
  note t = ballRingPos_components [of sampleRenderer halfEstimatedState]
  have hx: "estimatedPosX halfEstimatedState = Some 0.01 \<and> (0.01::real) \<noteq> 0"
    by (simp add: halfEstimatedState_def)
  have hy: "estimatedPosY halfEstimatedState = None" by (simp add: halfEstimatedState_def)
  have z: "vz (ballRingPos sampleRenderer halfEstimatedState)
      = platePosZ halfEstimatedState + vz (plateOrig sampleRenderer)"
    using t by blast
  have x: "vx (ballRingPos sampleRenderer halfEstimatedState) = 0.01 + vx (plateOrig sampleRenderer)"
    using t hx by blast
  have y: "vy (ballRingPos sampleRenderer halfEstimatedState)
      = ballPosY halfEstimatedState + vy (plateOrig sampleRenderer)"
    using t hy by blast
  show ?thesis
    unfolding x y z
    by (simp add: halfEstimatedState_def initialModelState_def sampleRenderer_def DefaultPlateZ_def)
qed

text \<open>
  C4 as stated has the ring at the actual ball's X whenever the estimate is not complete,
  and at the estimated X whenever it is. With the estimated X present and the Y absent the
  ring is at the estimated X; with both present and the estimated X equal to 0 the ring is
  at the actual ball's X.
\<close>

theorem ballRingPos_not_all_or_nothing:
  "estimatedPosX halfEstimatedState = Some 0.01 \<and> estimatedPosY halfEstimatedState = None
   \<and> ballPosX halfEstimatedState = 0.05
   \<and> vx (ballRingPos sampleRenderer halfEstimatedState)
       \<noteq> ballPosX halfEstimatedState + vx (plateOrig sampleRenderer)
   \<and> estimatedPosX zeroEstimatedState = Some 0 \<and> estimatedPosY zeroEstimatedState = Some 0.01
   \<and> ballPosX zeroEstimatedState = 0.05
   \<and> vx (ballRingPos sampleRenderer zeroEstimatedState) \<noteq> 0 + vx (plateOrig sampleRenderer)"
  by (simp add: ballRingPos_def vec_add_def js_or_def halfEstimatedState_def
      zeroEstimatedState_def initialModelState_def sampleRenderer_def)

text \<open>
  C5, as the code has it. In every state in which both components of the estimated
  velocity are present and the vector has length 0, the indicator is shown, not hidden:
  presence is all the pass tests. Its length is set to 0, and its direction to what the
  library's normalize returns for the zero vector, which the pass hands to it as it does
  any other.
\<close>

theorem estimatedVel_zero_shown:
  assumes "estimatedVelX st = Some evx" and "estimatedVelY st = Some evy"
    and "vec_length (Vector3 evx evy 0) = 0"
  shows "arrow_visible (estimatedVel (render3DScene eps st this)) = True
       \<and> arrow_length (estimatedVel (render3DScene eps st this)) = 0
       \<and> arrow_direction (estimatedVel (render3DScene eps st this))
           = vec_normalize (Vector3 0 0 0)"
proof -
  have "evx * evx + evy * evy = 0" using assms(3) by (simp add: vec_length_def)
  then have z: "evx = 0" "evy = 0"
    by (simp_all add: sum_squares_eq_zero_iff)
  have len: "vec_length (Vector3 0 0 0) = 0" by (simp add: vec_length_def)
  show ?thesis
    using assms(1,2) z len
    by (simp add: render3DScene_def Let_def)
qed

text \<open>The initial model state has the estimated velocity \<open>(0, 0)\<close>.\<close>

theorem estimatedVel_zero_shown_witness:
  "estimatedVelX initialModelState = Some 0 \<and> estimatedVelY initialModelState = Some 0
   \<and> vec_length (Vector3 0 0 0) = 0
   \<and> arrow_visible (estimatedVel (render3DScene (1 / 1000000) initialModelState sampleRenderer)) = True
   \<and> arrow_length (estimatedVel (render3DScene (1 / 1000000) initialModelState sampleRenderer)) = 0
   \<and> arrow_direction (estimatedVel (render3DScene (1 / 1000000) initialModelState sampleRenderer))
       = vec_normalize (Vector3 0 0 0)"
proof -
  have h1: "estimatedVelX initialModelState = Some 0" by (simp add: initialModelState_def)
  have h2: "estimatedVelY initialModelState = Some 0" by (simp add: initialModelState_def)
  have h3: "vec_length (Vector3 0 0 0) = 0" by (simp add: vec_length_def)
  from estimatedVel_zero_shown [OF h1 h2 h3, of "1 / 1000000" sampleRenderer] h1 h2 h3
  show ?thesis by blast
qed

text \<open>C5 as stated has the indicator hidden in that state.\<close>

theorem estimatedVel_zero_not_hidden:
  "estimatedVelX initialModelState = Some 0 \<and> estimatedVelY initialModelState = Some 0
   \<and> vec_length (Vector3 0 0 0) = 0
   \<and> arrow_visible (estimatedVel (render3DScene (1 / 1000000) initialModelState sampleRenderer))
       \<noteq> False"
  by (simp add: render3DScene_def Let_def initialModelState_def vec_length_def)


section \<open>The render pass: the orientation of the ball\<close>

text \<open>
  C3. For every state whose ball orientation \<open>q\<close> is a unit quaternion, the orientation
  the pass gives the ball is the inverse of \<open>q\<close>: composed with \<open>q\<close>, on either side, it is
  the identity quaternion.
\<close>

theorem ballRot_inverse:
  assumes "(ballOrientX st)\<^sup>2 + (ballOrientY st)\<^sup>2 + (ballOrientZ st)\<^sup>2 + (ballOrientW st)\<^sup>2 = 1"
  shows "quaternion (ball (render3DScene eps st this)) = ballRot st
       \<and> multiply (ballRot st)
           (Quaternion (ballOrientX st) (ballOrientY st) (ballOrientZ st) (ballOrientW st))
         = Quaternion 0 0 0 1
       \<and> multiply (Quaternion (ballOrientX st) (ballOrientY st) (ballOrientZ st) (ballOrientW st))
           (ballRot st)
         = Quaternion 0 0 0 1"
proof -
  have "ballOrientW st * ballOrientW st + ballOrientX st * ballOrientX st
        + ballOrientY st * ballOrientY st + ballOrientZ st * ballOrientZ st = 1"
    using assms by (simp add: power2_eq_square algebra_simps)
  then show ?thesis
    by (simp add: render3DScene_def Let_def ballRot_def invert_def multiply_def algebra_simps)
qed

theorem ballRot_inverse_witness:
  "(3/5)\<^sup>2 + 0\<^sup>2 + 0\<^sup>2 + (4/5 :: real)\<^sup>2 = 1
   \<and> quaternion (ball (render3DScene (1 / 1000000) spunBallState sampleRenderer))
       = Quaternion (- 3/5) 0 0 (4/5)
   \<and> multiply (Quaternion (- 3/5) 0 0 (4/5)) (Quaternion (3/5) 0 0 (4/5)) = Quaternion 0 0 0 1"
proof -
  have h: "(ballOrientX spunBallState)\<^sup>2 + (ballOrientY spunBallState)\<^sup>2
         + (ballOrientZ spunBallState)\<^sup>2 + (ballOrientW spunBallState)\<^sup>2 = 1"
    by (simp add: spunBallState_def initialModelState_def power2_eq_square)
  have r: "ballRot spunBallState = Quaternion (- 3/5) 0 0 (4/5)"
    by (simp add: ballRot_def invert_def spunBallState_def initialModelState_def)
  have e: "(3/5)\<^sup>2 + 0\<^sup>2 + 0\<^sup>2 + (4/5 :: real)\<^sup>2 = 1" by (simp add: power2_eq_square)
  from ballRot_inverse [OF h, of "1 / 1000000" sampleRenderer] r e
  show ?thesis by (simp add: spunBallState_def initialModelState_def)
qed


section \<open>The render pass: the orientation of the plate\<close>

lemma render_plate_quaternion:
  "quaternion (plate (render3DScene eps st this)) = plateQ eps st"
  by (simp add: render3DScene_def Let_def)





text \<open>
  C8. For the plate normal \<open>(0, 0, -1)\<close> the plate orientation is the quaternion
  \<open>(0, -1, 0, 0)\<close>: of unit length, with no real part, so a rotation by 180 degrees, about
  the y axis, which takes \<open>(0, 0, 1)\<close> to \<open>(0, 0, -1)\<close>. The threshold of the library is
  positive.
\<close>

theorem plateQ_antiparallel:
  assumes "0 < eps"
    and "plateNorX st = 0" and "plateNorY st = 0" and "plateNorZ st = - 1"
  shows "quaternion (plate (render3DScene eps st this)) = Quaternion 0 (- 1) 0 0
       \<and> quat_length (Quaternion 0 (- 1) 0 0) = 1
       \<and> applyQuaternion zAxis (Quaternion 0 (- 1) 0 0) = Vector3 0 0 (- 1)"
  using assms
  by (simp add: render_plate_quaternion plateQ_def setFromUnitVectors_def zAxis_def Let_def
      quat_normalize_def quat_length_def applyQuaternion_def)

theorem plateQ_antiparallel_witness:
  "(0::real) < 1 / 1000000
   \<and> plateNorX flippedState = 0 \<and> plateNorY flippedState = 0 \<and> plateNorZ flippedState = - 1
   \<and> quaternion (plate (render3DScene (1 / 1000000) flippedState sampleRenderer))
       = Quaternion 0 (- 1) 0 0
   \<and> quat_length (Quaternion 0 (- 1) 0 0) = 1
   \<and> applyQuaternion zAxis (Quaternion 0 (- 1) 0 0) = Vector3 0 0 (- 1)"
proof -
  have h1: "(0::real) < 1 / 1000000" by simp
  have h2: "plateNorX flippedState = 0" and h3: "plateNorY flippedState = 0"
    and h4: "plateNorZ flippedState = - 1"
    by (simp_all add: flippedState_def)
  from plateQ_antiparallel [OF h1 h2 h3 h4, of sampleRenderer] h1 h2 h3 h4
  show ?thesis by blast
qed


section \<open>The inbound message: legacy field names\<close>

lemma field_roll: "field (receiveMessage_state state) ''roll'' =
    nullish (if state ''roll'' = JUndefined then state ''tilt_x'' else state ''roll'')
      (JNum (Fin 0.0))"
  by (simp add: receiveMessage_state_def field_def Let_def)

lemma field_pitch: "field (receiveMessage_state state) ''pitch'' =
    nullish (if state ''pitch'' = JUndefined then state ''tilt_y'' else state ''pitch'')
      (JNum (Fin 0.0))"
  by (simp add: receiveMessage_state_def field_def Let_def)

lemma field_obstaclePosX: "field (receiveMessage_state state) ''obstaclePosX'' =
    nullish (if state ''obstacle_x'' = JUndefined then state ''obstacle_pos_x''
             else state ''obstacle_x'')
      (JNum (Fin 0.03))"
  by (simp add: receiveMessage_state_def field_def Let_def)

lemma field_obstaclePosY: "field (receiveMessage_state state) ''obstaclePosY'' =
    nullish (if state ''obstacle_y'' = JUndefined then state ''obstacle_pos_y''
             else state ''obstacle_y'')
      (JNum (Fin 0.03))"
  by (simp add: receiveMessage_state_def field_def Let_def)

lemma field_platePosX: "field (receiveMessage_state state) ''platePosX'' =
    nullish (if state ''plate_x'' = JUndefined then state ''plate_pos_x'' else state ''plate_x'')
      (JNum (Fin 0.0))"
  by (simp add: receiveMessage_state_def field_def Let_def)

lemma field_platePosY: "field (receiveMessage_state state) ''platePosY'' =
    nullish (if state ''plate_y'' = JUndefined then state ''plate_pos_y'' else state ''plate_y'')
      (JNum (Fin 0.0))"
  by (simp add: receiveMessage_state_def field_def Let_def)

lemma field_platePosZ: "field (receiveMessage_state state) ''platePosZ'' =
    nullish (if state ''plate_z'' = JUndefined then state ''plate_pos_z'' else state ''plate_z'')
      (JNum (Fin DefaultPlateZ))"
  by (simp add: receiveMessage_state_def field_def Let_def)

lemma field_targetPosX: "field (receiveMessage_state state) ''targetPosX'' =
    nullish (if state ''target_x'' = JUndefined then state ''target_pos_x''
             else state ''target_x'')
      (JNum (Fin 0.0))"
  by (simp add: receiveMessage_state_def field_def Let_def)

lemma field_targetPosY: "field (receiveMessage_state state) ''targetPosY'' =
    nullish (if state ''target_y'' = JUndefined then state ''target_pos_y''
             else state ''target_y'')
      (JNum (Fin 0.0))"
  by (simp add: receiveMessage_state_def field_def Let_def)

lemmas field_aliases = field_roll field_pitch field_obstaclePosX field_obstaclePosY
  field_platePosX field_platePosY field_platePosZ field_targetPosX field_targetPosY

text \<open>
  C9. For every inbound state and each of the nine fields that has a legacy name (each
  line below: the field of the model state, its current name in the message, its legacy
  name): where the current name is present, holding a number or a boolean, the resolved
  value is its value, whatever the legacy name holds; and where the current name is
  absent and the legacy name is present, the resolved value is the legacy field's value.
\<close>

theorem receiveMessage_legacy_aliases:
  "\<forall>(out, cur, leg) \<in> set
      [(''roll'', ''roll'', ''tilt_x''),
       (''pitch'', ''pitch'', ''tilt_y''),
       (''obstaclePosX'', ''obstacle_x'', ''obstacle_pos_x''),
       (''obstaclePosY'', ''obstacle_y'', ''obstacle_pos_y''),
       (''platePosX'', ''plate_x'', ''plate_pos_x''),
       (''platePosY'', ''plate_y'', ''plate_pos_y''),
       (''platePosZ'', ''plate_z'', ''plate_pos_z''),
       (''targetPosX'', ''target_x'', ''target_pos_x''),
       (''targetPosY'', ''target_y'', ''target_pos_y'')].
     (state cur \<noteq> JUndefined \<and> state cur \<noteq> JNull
        \<longrightarrow> field (receiveMessage_state state) out = state cur)
     \<and> (state cur = JUndefined \<and> state leg \<noteq> JUndefined \<and> state leg \<noteq> JNull
        \<longrightarrow> field (receiveMessage_state state) out = state leg)"
  by (simp add: field_aliases nullish_def del: One_nat_def)

text \<open>
  With \<open>roll = 0.1\<close> and \<open>tilt_x = 0.7\<close> the resolved roll is 0.1; with \<open>tilt_y = -0.05\<close> and
  no \<open>pitch\<close> the resolved pitch is -0.05.
\<close>

theorem receiveMessage_legacy_aliases_witness:
  "legacyMessage ''roll'' = JNum (Fin 0.1) \<and> legacyMessage ''tilt_x'' = JNum (Fin 0.7)
   \<and> field (receiveMessage_state legacyMessage) ''roll'' = JNum (Fin 0.1)
   \<and> legacyMessage ''pitch'' = JUndefined \<and> legacyMessage ''tilt_y'' = JNum (Fin (- 0.05))
   \<and> field (receiveMessage_state legacyMessage) ''pitch'' = JNum (Fin (- 0.05))"
proof -
  have r: "legacyMessage ''roll'' = JNum (Fin 0.1)" "legacyMessage ''tilt_x'' = JNum (Fin 0.7)"
    by (simp_all add: legacyMessage_def)
  have p: "legacyMessage ''pitch'' = JUndefined" "legacyMessage ''tilt_y'' = JNum (Fin (- 0.05))"
    by (simp_all add: legacyMessage_def)
  note t = receiveMessage_legacy_aliases [of legacyMessage]
  have t1: "field (receiveMessage_state legacyMessage) ''roll'' = legacyMessage ''roll''"
    using t [THEN bspec, of "(''roll'', ''roll'', ''tilt_x'')"] r by simp
  have t2: "field (receiveMessage_state legacyMessage) ''pitch'' = legacyMessage ''tilt_y''"
    using t [THEN bspec, of "(''pitch'', ''pitch'', ''tilt_y'')"] p by simp
  from r p t1 t2 show ?thesis by simp
qed

end
